theory Spec2Isabelle
  imports Main
begin

section \<open>The demo lifecycle tasks of origamid (\<^verbatim>\<open>origamid/tasks.py\<close>)\<close>

text \<open>
  The module holds three operations on a demo: \<^verbatim>\<open>update_demo_status\<close> (reconcile),
  \<^verbatim>\<open>remove_demo_instance_if_exist\<close> (reclaim) and \<^verbatim>\<open>deploy_demo\<close> (deploy). They talk to
  a docker daemon, a port allocator, the file system and the \<^verbatim>\<open>Demos\<close> table.

  Everything outside the module is made explicit:
  \<^item> a Python exception is a value of \<open>exn\<close>, and a call that may raise returns
    \<open>exn + 'a\<close> (\<open>Inl\<close> is the raise);
  \<^item> the table, the log files and the sequence of requests sent to the outside are the
    \<open>world\<close>, passed in and returned;
  \<^item> what the daemon, the allocator and the file system answer during one run of a task
    is the \<open>env\<close>, a record of answers, each a function of the request's arguments.
    No behaviour of the daemon is assumed: a theorem about all \<open>env\<close> is a theorem
    about every way the outside can answer.
  Log messages (\<^verbatim>\<open>logging.info\<close>, \<^verbatim>\<open>logging.error\<close>) have no effect on any of this
  and are left out. Text is ASCII in this model.
\<close>

subsection \<open>Exceptions\<close>

datatype exn =
    NotFound | APIError | BuildError | OrigamiDockerConnectionError
  | IndexError | KeyError | TypeError | AttributeError | OtherException

text \<open>
  \<^verbatim>\<open>except NotFound\<close> and \<^verbatim>\<open>except APIError\<close>: in docker-py \<^verbatim>\<open>NotFound\<close> is a subclass of
  \<^verbatim>\<open>APIError\<close>, \<^verbatim>\<open>BuildError\<close> is not.
\<close>

definition is_NotFound :: "exn \<Rightarrow> bool" where
  "is_NotFound x = (x = NotFound)"

definition is_APIError :: "exn \<Rightarrow> bool" where
  "is_APIError x = (x = APIError \<or> x = NotFound)"

subsection \<open>JSON values (the records of a build log)\<close>

datatype json =
    JNull | JBool bool | JNum int | JStr string
  | JArr "json list" | JObj "(string \<times> json) list"

text \<open>\<^verbatim>\<open>v[key]\<close> for a string key: only a dict has string keys.\<close>

fun subscript_key :: "json \<Rightarrow> string \<Rightarrow> exn + json" where
  "subscript_key (JObj kvs) k =
     (case map_of kvs k of None \<Rightarrow> Inl KeyError | Some v \<Rightarrow> Inr v)"
| "subscript_key _ k = Inl TypeError"

text \<open>\<^verbatim>\<open>v[7:]\<close>: a string and a list can be sliced, nothing else.\<close>

fun slice_from_7 :: "json \<Rightarrow> exn + json" where
  "slice_from_7 (JStr s) = Inr (JStr (drop 7 s))"
| "slice_from_7 (JArr xs) = Inr (JArr (drop 7 xs))"
| "slice_from_7 _ = Inl TypeError"

subsection \<open>Strings\<close>

definition is_space :: "char \<Rightarrow> bool" where
  "is_space c = (c \<in> set [CHR 0x09, CHR 0x0A, CHR 0x0B, CHR 0x0C, CHR 0x0D,
                           CHR 0x1C, CHR 0x1D, CHR 0x1E, CHR 0x1F, CHR 0x20])"

text \<open>\<^verbatim>\<open>s.strip()\<close>\<close>

definition strip :: "string \<Rightarrow> string" where
  "strip s = rev (dropWhile is_space (rev (dropWhile is_space s)))"

definition lower_char :: "char \<Rightarrow> char" where
  "lower_char c =
     (case map_of (zip ''ABCDEFGHIJKLMNOPQRSTUVWXYZ'' ''abcdefghijklmnopqrstuvwxyz'') c of
        None \<Rightarrow> c | Some l \<Rightarrow> l)"

text \<open>
  \<^verbatim>\<open>re.match(r'Successfully built (.*)', s, re.M | re.I)\<close> is not \<^verbatim>\<open>None\<close>: the match is
  anchored at the start, ignores case, and the group may be empty, so it succeeds exactly
  when \<open>s\<close> starts with the 19 characters of \<^verbatim>\<open>Successfully built \<close> in any case.
\<close>

definition re_match_built :: "string \<Rightarrow> bool" where
  "re_match_built s = (map lower_char (take 19 s) = ''successfully built '')"

text \<open>\<^verbatim>\<open>os.path.join(a, *ps)\<close> (posix).\<close>

fun path_join :: "string \<Rightarrow> string list \<Rightarrow> string" where
  "path_join a [] = a"
| "path_join a (b # bs) =
     path_join
       (if take 1 b = ''/'' then b
        else if a = [] \<or> last a = CHR ''/'' then a @ b
        else a @ ''/'' @ b) bs"

subsection \<open>The Demos table\<close>

text \<open>
  Modelled from the spec: the \<^verbatim>\<open>Demos\<close> model of \<^verbatim>\<open>origamid/database.py\<close>, which is not among
  the sources at hand. Its columns are the fields the tasks read and write; the spec's
  data model gives them (\<open>demoId\<close> unique, \<open>containerId\<close>, \<open>imageId\<close> and \<open>port\<close>
  possibly absent). \<open>status\<close> is a plain string in the code. \<open>image_id\<close> holds whatever
  the build log's slice is: a string or a list.
\<close>

record demo =
  demo_id :: string
  log_id :: string
  status :: string
  container_id :: "string option"
  image_id :: "json option"
  port :: "int option"

text \<open>Python truth of \<^verbatim>\<open>demo.container_id\<close> and \<^verbatim>\<open>demo.port\<close>: \<^verbatim>\<open>None\<close>, \<^verbatim>\<open>''\<close> and \<^verbatim>\<open>0\<close> are false.\<close>

definition truthy_str :: "string option \<Rightarrow> bool" where
  "truthy_str v = (case v of None \<Rightarrow> False | Some s \<Rightarrow> s \<noteq> [])"

definition truthy_int :: "int option \<Rightarrow> bool" where
  "truthy_int v = (case v of None \<Rightarrow> False | Some n \<Rightarrow> n \<noteq> 0)"

subsection \<open>Requests to the outside, and the world\<close>

datatype call =
    Get string                          \<comment> \<open>\<^verbatim>\<open>docker_client.containers.get(id)\<close>\<close>
  | Stop string nat                     \<comment> \<open>\<^verbatim>\<open>container.stop(timeout=10)\<close>\<close>
  | Remove string                       \<comment> \<open>\<^verbatim>\<open>container.remove()\<close>\<close>
  | Build string string                 \<comment> \<open>\<^verbatim>\<open>APIClient(base_url=..).build(path=..)\<close>\<close>
  | OpenWrite string                    \<comment> \<open>\<^verbatim>\<open>open(logfile, LOGS_FILE_MODE_REQ)\<close>\<close>
  | GetFreePort                         \<comment> \<open>\<^verbatim>\<open>get_a_free_port()\<close>\<close>
  | Run json string string "int option" \<comment> \<open>\<^verbatim>\<open>containers.run(image, name=.., ports={..: ..})\<close>\<close>
  | Save demo                           \<comment> \<open>\<^verbatim>\<open>demo.save()\<close>\<close>

record world =
  db :: "string \<rightharpoonup> demo"           \<comment> \<open>the Demos table, by \<open>demo_id\<close>\<close>
  files :: "string \<rightharpoonup> json list"   \<comment> \<open>the log files, by path\<close>
  calls :: "call list"                  \<comment> \<open>the requests made so far, oldest first\<close>

record env =
  home :: "string option"               \<comment> \<open>\<^verbatim>\<open>os.environ['HOME']\<close>\<close>
  origami_config_dir :: string
  origami_demos_dirname :: string
  origami_wrapped_demo_port :: string   \<comment> \<open>as \<^verbatim>\<open>'{}'.format\<close> prints it\<close>
  docker_unix_socket :: string
  origami_deploy_logs_dir :: string
  origami_static_dir :: string          \<comment> \<open>\<^verbatim>\<open>get_origami_static_dir()\<close>\<close>
  uuid4_hex :: string                   \<comment> \<open>\<^verbatim>\<open>uuid.uuid4().hex\<close>\<close>
  containers_get :: "nat \<Rightarrow> string \<Rightarrow> exn + string"
    \<comment> \<open>the status of the container; the number counts the earlier \<open>get\<close> of the run\<close>
  container_stop :: "string \<Rightarrow> exn + unit"
  container_remove :: "string \<Rightarrow> exn + unit"
  api_build :: "string \<Rightarrow> string \<Rightarrow> exn + json list"
    \<comment> \<open>the decoded lines of the build stream, for a socket and a path\<close>
  open_write :: "string \<Rightarrow> exn + unit"
  get_a_free_port :: "exn + int"
  containers_run :: "json \<Rightarrow> string \<Rightarrow> string \<Rightarrow> int option \<Rightarrow> exn + string"
    \<comment> \<open>the id of the started container\<close>

definition called :: "call \<Rightarrow> world \<Rightarrow> world" where
  "called c w = w\<lparr>calls := calls w @ [c]\<rparr>"

text \<open>
  \<^verbatim>\<open>Demos.get_or_none(Demos.demo_id == demo_id)\<close>: the query selects on the column, so a row
  comes back only when its \<open>demo_id\<close> is the one asked for.
\<close>

definition get_or_none :: "world \<Rightarrow> string \<Rightarrow> demo option" where
  "get_or_none w did =
     (case db w did of
        None \<Rightarrow> None
      | Some d \<Rightarrow> if demo_id d = did then Some d else None)"

text \<open>\<^verbatim>\<open>demo.save()\<close>\<close>

definition save :: "demo \<Rightarrow> world \<Rightarrow> world" where
  "save d w = w\<lparr>db := (db w)(demo_id d \<mapsto> d), calls := calls w @ [Save d]\<rparr>"

subsection \<open>\<^verbatim>\<open>update_demo_status\<close>\<close>

text \<open>
  The \<open>demo\<close> object is the caller's and is mutated in place, so the function returns it
  beside the result and the world.
\<close>

definition update_demo_status :: "env \<Rightarrow> demo \<Rightarrow> world \<Rightarrow> (exn + unit) \<times> demo \<times> world" where
  "update_demo_status e d w =
     (if truthy_str (container_id d) then
        (case container_id d of
           None \<Rightarrow> (Inr (), d, w)
         | Some cid \<Rightarrow>
             let w1 = called (Get cid) w in
             (case containers_get e 0 cid of
                Inr cstatus \<Rightarrow>
                  let d1 = d\<lparr>status := cstatus\<rparr> in (Inr (), d1, save d1 w1)
              | Inl x \<Rightarrow>
                  if is_NotFound x then
                    let d1 = d\<lparr>container_id := None, status := ''empty''\<rparr>
                    in (Inr (), d1, save d1 w1)
                  else if is_APIError x then (Inl OrigamiDockerConnectionError, d, w1)
                  else (Inl x, d, w1)))
      else (Inr (), d, w))"

subsection \<open>\<^verbatim>\<open>remove_demo_instance_if_exist\<close>\<close>

text \<open>
  Lines 82 to 100: look the container up, stop it, look it up again and remove it. A
  \<^verbatim>\<open>NotFound\<close> of the second lookup or of the removal is passed over; every other exception
  leaves the block.
\<close>

definition stop_and_remove :: "env \<Rightarrow> string \<Rightarrow> world \<Rightarrow> (exn + unit) \<times> world" where
  "stop_and_remove e cid w =
     (let w1 = called (Get cid) w in
      case containers_get e 0 cid of
        Inl x \<Rightarrow> (Inl x, w1)
      | Inr _ \<Rightarrow>
          let w2 = called (Stop cid 10) w1 in
          (case container_stop e cid of
             Inl x \<Rightarrow> (Inl x, w2)
           | Inr _ \<Rightarrow>
               let w3 = called (Get cid) w2 in
               (case containers_get e 1 cid of
                  Inl x \<Rightarrow> if is_NotFound x then (Inr (), w3) else (Inl x, w3)
                | Inr _ \<Rightarrow>
                    let w4 = called (Remove cid) w3 in
                    (case container_remove e cid of
                       Inl x \<Rightarrow> if is_NotFound x then (Inr (), w4) else (Inl x, w4)
                     | Inr _ \<Rightarrow> (Inr (), w4)))))"

definition remove_demo_instance_if_exist ::
    "env \<Rightarrow> string \<Rightarrow> string \<Rightarrow> world \<Rightarrow> (exn + demo option) \<times> world" where
  "remove_demo_instance_if_exist e did st w =
     (case get_or_none w did of
        None \<Rightarrow> (Inr None, w)
      | Some d \<Rightarrow>
          if truthy_str (container_id d) then
            (case container_id d of
               None \<Rightarrow> (Inr None, w)
             | Some cid \<Rightarrow>
                 (case stop_and_remove e cid w of
                    (Inr _, w1) \<Rightarrow>
                      let d1 = d\<lparr>status := st, container_id := None, image_id := None\<rparr>
                      in (Inr (Some d1), save d1 w1)
                  | (Inl x, w1) \<Rightarrow>
                      if is_NotFound x then (Inr None, w1)
                      else if is_APIError x then
                        (Inl OrigamiDockerConnectionError, save (d\<lparr>status := ''error''\<rparr>) w1)
                      else (Inl x, w1)))
          else (Inr None, w))"

subsection \<open>\<^verbatim>\<open>deploy_demo\<close>\<close>

text \<open>
  Line 164, \<^verbatim>\<open>response[-1]['stream'].strip()\<close>. It stands outside the inner \<^verbatim>\<open>try\<close>: an empty
  log, a last record without the key, or a value that is no string raises here.
\<close>

definition final_res_of :: "json list \<Rightarrow> exn + string" where
  "final_res_of response =
     (if response = [] then Inl IndexError
      else (case subscript_key (last response) ''stream'' of
              Inl x \<Rightarrow> Inl x
            | Inr (JStr s) \<Rightarrow> Inr (strip s)
            | Inr _ \<Rightarrow> Inl AttributeError))"

text \<open>
  Lines 168 to 171, the body of the inner \<^verbatim>\<open>try\<close>: \<^verbatim>\<open>match_obj.group(1)\<close> raises on
  \<^verbatim>\<open>None\<close>, then \<^verbatim>\<open>response[-2]['aux']['ID'][7:]\<close>.
\<close>

definition sha256_of :: "json list \<Rightarrow> string \<Rightarrow> exn + json" where
  "sha256_of response final_res =
     (if \<not> re_match_built final_res then Inl AttributeError
      else if length response < 2 then Inl IndexError
      else (case subscript_key (response ! (length response - 2)) ''aux'' of
              Inl x \<Rightarrow> Inl x
            | Inr aux \<Rightarrow>
                (case subscript_key aux ''ID'' of
                   Inl x \<Rightarrow> Inl x
                 | Inr ident \<Rightarrow> slice_from_7 ident)))"

text \<open>
  \<^verbatim>\<open>raise BuildError(e)\<close>, lines 173 and 177. The constructor of docker-py's \<^verbatim>\<open>BuildError\<close> is
  \<^verbatim>\<open>__init__(self, reason, build_log)\<close> from docker-py 3.0 on, the version whose
  \<^verbatim>\<open>images.build\<close> returns the tuple that the commented line 181 indexes. Called with the
  one argument \<^verbatim>\<open>e\<close>, the constructor raises \<^verbatim>\<open>TypeError\<close>: no \<^verbatim>\<open>BuildError\<close> comes into being,
  and \<^verbatim>\<open>TypeError\<close> is what leaves the handler.
\<close>

definition raise_BuildError_of :: "exn \<Rightarrow> exn" where
  "raise_BuildError_of e = TypeError"

text \<open>
  Lines 164 to 177: both handlers of the inner \<^verbatim>\<open>try\<close> (\<^verbatim>\<open>IndexError\<close>, \<^verbatim>\<open>Exception\<close>) run
  \<^verbatim>\<open>raise BuildError(e)\<close>.
\<close>

definition parse_image_id :: "json list \<Rightarrow> exn + json" where
  "parse_image_id response =
     (case final_res_of response of
        Inl x \<Rightarrow> Inl x
      | Inr final_res \<Rightarrow>
          (case sha256_of response final_res of
             Inl x \<Rightarrow> Inl (raise_BuildError_of x)
           | Inr img \<Rightarrow> Inr img))"

definition dockerfile_dir :: "env \<Rightarrow> string \<Rightarrow> string \<Rightarrow> string" where
  "dockerfile_dir e h did =
     path_join h [origami_config_dir e, origami_demos_dirname e, did]"

definition logfile :: "env \<Rightarrow> demo \<Rightarrow> string" where
  "logfile e d = path_join (origami_static_dir e) [origami_deploy_logs_dir e, log_id d]"

text \<open>
  Lines 186 to 202: take a port if the demo has none, run the container, record its id.
  The demo object keeps the fields written before a raise.
\<close>

definition launch :: "env \<Rightarrow> string \<Rightarrow> json \<Rightarrow> demo \<Rightarrow> world \<Rightarrow> (exn + unit) \<times> demo \<times> world" where
  "launch e did img d w =
     (let run = (\<lambda>d2 w2.
            let port_map = origami_wrapped_demo_port e @ ''/tcp'';
                w3 = called (Run img did port_map (port d2)) w2
            in (case containers_run e img did port_map (port d2) of
                  Inl x \<Rightarrow> (Inl x, d2, w3)
                | Inr cid \<Rightarrow>
                    (Inr (), d2\<lparr>container_id := Some cid, status := ''running''\<rparr>, w3)))
      in if truthy_int (port d) then run d w
         else (let w1 = called GetFreePort w in
               case get_a_free_port e of
                 Inl x \<Rightarrow> (Inl x, d, w1)
               | Inr p \<Rightarrow> run (d\<lparr>port := Some p\<rparr>) w1))"

text \<open>Lines 151 to 202, the body of the outer \<^verbatim>\<open>try\<close>.\<close>

definition build_and_run ::
    "env \<Rightarrow> string \<Rightarrow> string \<Rightarrow> demo \<Rightarrow> world \<Rightarrow> (exn + unit) \<times> demo \<times> world" where
  "build_and_run e did dir d w =
     (let w1 = called (Build (docker_unix_socket e) dir) w in
      case api_build e (docker_unix_socket e) dir of
        Inl x \<Rightarrow> (Inl x, d, w1)
      | Inr response \<Rightarrow>
          let w2 = called (OpenWrite (logfile e d)) w1 in
          (case open_write e (logfile e d) of
             Inl x \<Rightarrow> (Inl x, d, w2)
           | Inr _ \<Rightarrow>
               let w3 = w2\<lparr>files := (files w2)(logfile e d \<mapsto> response)\<rparr> in
               (case parse_image_id response of
                  Inl x \<Rightarrow> (Inl x, d, w3)
                | Inr img \<Rightarrow> launch e did img (d\<lparr>image_id := Some img\<rparr>) w3)))"

definition new_demo :: "env \<Rightarrow> string \<Rightarrow> demo" where
  "new_demo e did =
     \<lparr>demo_id = did, log_id = uuid4_hex e, status = ''deploying'',
      container_id = None, image_id = None, port = None\<rparr>"

text \<open>Lines 139 to 142: the stored demo, or a new one that is not stored yet.\<close>

definition load_or_new :: "env \<Rightarrow> string \<Rightarrow> world \<Rightarrow> demo" where
  "load_or_new e did w =
     (case get_or_none w did of None \<Rightarrow> new_demo e did | Some d \<Rightarrow> d)"

text \<open>
  \<open>Inr ()\<close> is a return, \<open>Inl x\<close> an exception that leaves the task. The second argument,
  \<^verbatim>\<open>demo_dir\<close>, is in the signature and nowhere in the body.
\<close>

definition deploy_demo :: "env \<Rightarrow> string \<Rightarrow> string \<Rightarrow> world \<Rightarrow> (exn + unit) \<times> world" where
  "deploy_demo e did demo_dir w =
     (case remove_demo_instance_if_exist e did ''redeploying'' w of
        (Inl x, w1) \<Rightarrow>
          if x = OrigamiDockerConnectionError then (Inr (), w1) else (Inl x, w1)
      | (Inr _, w1) \<Rightarrow>
          (case home e of
             None \<Rightarrow> (Inl KeyError, w1)
           | Some h \<Rightarrow>
               (case build_and_run e did (dockerfile_dir e h did) (load_or_new e did w1) w1 of
                  (Inr _, d1, w2) \<Rightarrow> (Inr (), save d1 w2)
                | (Inl x, d1, w2) \<Rightarrow>
                    if x = BuildError \<or> is_APIError x
                    then (Inr (), save (d1\<lparr>status := ''error''\<rparr>) w2)
                    else (Inl x, w2))))"

subsection \<open>Observations on a world\<close>

text \<open>How many times the port allocator has been asked.\<close>

definition free_port_calls :: "world \<Rightarrow> nat" where
  "free_port_calls w = length (filter (\<lambda>c. c = GetFreePort) (calls w))"

text \<open>The port stored for a demo: absent when there is no row, or no port in the row.\<close>

definition port_of :: "world \<Rightarrow> string \<Rightarrow> int option" where
  "port_of w did = (case get_or_none w did of None \<Rightarrow> None | Some d \<Rightarrow> port d)"

text \<open>
  The image with which \<open>deploy_demo\<close> enters the launch step (line 183), if it gets there:
  the reclaim returns, \<^verbatim>\<open>HOME\<close> is set, the build yields a log, the log file opens and an
  image identifier comes out of the log.
\<close>

definition image_for_launch :: "env \<Rightarrow> string \<Rightarrow> world \<Rightarrow> json option" where
  "image_for_launch e did w =
     (case remove_demo_instance_if_exist e did ''redeploying'' w of
        (Inl _, _) \<Rightarrow> None
      | (Inr _, w1) \<Rightarrow>
          (case home e of
             None \<Rightarrow> None
           | Some h \<Rightarrow>
               (case api_build e (docker_unix_socket e) (dockerfile_dir e h did) of
                  Inl _ \<Rightarrow> None
                | Inr response \<Rightarrow>
                    (case open_write e (logfile e (load_or_new e did w1)) of
                       Inl _ \<Rightarrow> None
                     | Inr _ \<Rightarrow>
                         (case parse_image_id response of
                            Inl _ \<Rightarrow> None
                          | Inr img \<Rightarrow> Some img)))))"

text \<open>The five statuses of the spec's data model, and the table holding no other.\<close>

definition status_ok :: "string \<Rightarrow> bool" where
  "status_ok s =
     (s \<in> set [''empty'', ''deploying'', ''redeploying'', ''running'', ''error''])"

definition statuses_ok :: "world \<Rightarrow> bool" where
  "statuses_ok w = (\<forall>k d. get_or_none w k = Some d \<longrightarrow> status_ok (status d))"

text \<open>
  The spec's three ways for the extraction of the image identifier to fail, on a log
  whose final message is \<open>final_res\<close>: the message does not match the success pattern; the
  record before the last is absent or has no \<^verbatim>\<open>aux\<close> object with an \<^verbatim>\<open>ID\<close>; the \<^verbatim>\<open>ID\<close> is
  malformed (neither a string nor a list, so it has no slice).
\<close>

definition aux_ident :: "json \<Rightarrow> json option" where
  "aux_ident r =
     (case r of
        JObj kvs \<Rightarrow>
          (case map_of kvs ''aux'' of
             Some (JObj kvs2) \<Rightarrow> map_of kvs2 ''ID''
           | _ \<Rightarrow> None)
      | _ \<Rightarrow> None)"

definition is_sliceable :: "json \<Rightarrow> bool" where
  "is_sliceable v = (case v of JStr _ \<Rightarrow> True | JArr _ \<Rightarrow> True | _ \<Rightarrow> False)"

definition extraction_fails :: "json list \<Rightarrow> string \<Rightarrow> bool" where
  "extraction_fails response final_res =
     (\<not> re_match_built final_res \<or>
      length response < 2 \<or>
      (case aux_ident (response ! (length response - 2)) of
         None \<Rightarrow> True
       | Some v \<Rightarrow> \<not> is_sliceable v))"

subsection \<open>Sample values\<close>

text \<open>
  The constants of \<^verbatim>\<open>origamid/constants.py\<close> are parameters of the model (fields of \<open>env\<close>);
  the values below are samples, used where a theorem is applied to a concrete run.
\<close>

definition quiet_env :: env where
  "quiet_env =
     \<lparr>home = Some ''/home/origami'',
      origami_config_dir = ''.origami'',
      origami_demos_dirname = ''demos'',
      origami_wrapped_demo_port = ''9001'',
      docker_unix_socket = ''unix://var/run/docker.sock'',
      origami_deploy_logs_dir = ''logs'',
      origami_static_dir = ''/srv/static'',
      uuid4_hex = ''0f1e2d3c'',
      containers_get = (\<lambda>n cid. Inl NotFound),
      container_stop = (\<lambda>cid. Inr ()),
      container_remove = (\<lambda>cid. Inr ()),
      api_build = (\<lambda>sock dir. Inr []),
      open_write = (\<lambda>path. Inr ()),
      get_a_free_port = Inr 20001,
      containers_run = (\<lambda>img name port_map p. Inr ''c2'')\<rparr>"

definition demo1 :: demo where
  "demo1 =
     \<lparr>demo_id = ''demo1'', log_id = ''log1'', status = ''running'',
      container_id = Some ''c1'', image_id = Some (JStr ''feedface''), port = Some 20000\<rparr>"

definition world1 :: world where
  "world1 = \<lparr>db = [''demo1'' \<mapsto> demo1], files = Map.empty, calls = []\<rparr>"

definition empty_world :: world where
  "empty_world = \<lparr>db = Map.empty, files = Map.empty, calls = []\<rparr>"

definition aux_record :: json where
  "aux_record = JObj [(''aux'', JObj [(''ID'', JStr ''sha256:deadbeef00'')])]"

definition built_record :: json where
  "built_record = JObj [(''stream'', JStr ''Successfully built ab12cd34'')]"

definition good_env :: env where
  "good_env = quiet_env\<lparr>api_build := (\<lambda>sock dir. Inr [aux_record, built_record])\<rparr>"

definition redeploy_env :: env where
  "redeploy_env = good_env\<lparr>containers_get := (\<lambda>n cid. Inr ''running'')\<rparr>"

definition step_record :: json where
  "step_record = JObj [(''stream'', JStr ''Step 1/4 : FROM python:3'')]"

definition failed_build_env :: env where
  "failed_build_env = quiet_env\<lparr>api_build := (\<lambda>sock dir. Inr [step_record])\<rparr>"

definition exited_env :: env where
  "exited_env = quiet_env\<lparr>containers_get := (\<lambda>n cid. Inr ''exited'')\<rparr>"

definition run_fails_env :: env where
  "run_fails_env = good_env\<lparr>containers_run := (\<lambda>img name port_map p. Inl APIError)\<rparr>"

definition stop_fails_env :: env where
  "stop_fails_env =
     quiet_env\<lparr>containers_get := (\<lambda>n cid. Inr ''running''),
               container_stop := (\<lambda>cid. Inl APIError)\<rparr>"

definition error_record :: json where
  "error_record = JObj [(''error'', JStr ''The command returned a non-zero code: 1'')]"

definition error_record_env :: env where
  "error_record_env =
     quiet_env\<lparr>containers_get := (\<lambda>n cid. Inr ''running''),
               api_build := (\<lambda>sock dir. Inr [step_record, error_record])\<rparr>"

section \<open>Properties\<close>

subsection \<open>Basic facts\<close>

lemma get_or_none_save_same: "get_or_none (save d w) (demo_id d) = Some d"
  by (simp add: get_or_none_def save_def)

lemma get_or_none_save_other:
  "k \<noteq> demo_id d \<Longrightarrow> get_or_none (save d w) k = get_or_none w k"
  by (simp add: get_or_none_def save_def)

lemma get_or_none_called: "get_or_none (called c w) k = get_or_none w k"
  by (simp add: get_or_none_def called_def)

lemma get_or_none_demo_id: "get_or_none w k = Some d \<Longrightarrow> demo_id d = k"
  by (auto simp: get_or_none_def split: option.splits if_splits)

lemma get_or_none_files: "get_or_none (w\<lparr>files := f\<rparr>) k = get_or_none w k"
  by (simp add: get_or_none_def)

lemma free_port_calls_called:
  "free_port_calls (called c w) =
     (if c = GetFreePort then Suc (free_port_calls w) else free_port_calls w)"
  by (simp add: free_port_calls_def called_def)

lemma free_port_calls_files: "free_port_calls (w\<lparr>files := f\<rparr>) = free_port_calls w"
  by (simp add: free_port_calls_def)

lemma free_port_calls_save: "free_port_calls (save d w) = free_port_calls w"
  by (simp add: free_port_calls_def save_def)

subsection \<open>What reclaim does to the world\<close>

lemma stop_and_remove_db: "db (snd (stop_and_remove e cid w)) = db w"
  by (simp add: stop_and_remove_def Let_def called_def split: sum.splits)

lemma stop_and_remove_files: "files (snd (stop_and_remove e cid w)) = files w"
  by (simp add: stop_and_remove_def Let_def called_def split: sum.splits)

lemma stop_and_remove_ports:
  "free_port_calls (snd (stop_and_remove e cid w)) = free_port_calls w"
  by (simp add: stop_and_remove_def Let_def called_def free_port_calls_def split: sum.splits)

text \<open>The outcome of the block depends on the answers only, not on the world.\<close>

lemma stop_and_remove_result: "fst (stop_and_remove e cid w) = fst (stop_and_remove e cid w')"
  by (simp add: stop_and_remove_def Let_def split: sum.splits)

text \<open>
  Reclaim leaves the table as it is, or saves the demo once: reset to the target status,
  or marked \<^verbatim>\<open>error\<close>.
\<close>

lemma reclaim_world:
  "\<exists>w1. db w1 = db w \<and> files w1 = files w \<and> free_port_calls w1 = free_port_calls w \<and>
     (snd (remove_demo_instance_if_exist e did st w) = w1 \<or>
      (\<exists>d. get_or_none w did = Some d \<and> truthy_str (container_id d) \<and>
         (snd (remove_demo_instance_if_exist e did st w)
            = save (d\<lparr>status := st, container_id := None, image_id := None\<rparr>) w1 \<or>
          snd (remove_demo_instance_if_exist e did st w)
            = save (d\<lparr>status := ''error''\<rparr>) w1)))"
proof (cases "get_or_none w did")
  case None
  then show ?thesis by (auto simp: remove_demo_instance_if_exist_def)
next
  case row: (Some d)
  show ?thesis
  proof (cases "container_id d")
    case None
    with row show ?thesis by (auto simp: remove_demo_instance_if_exist_def)
  next
    case (Some cid)
    obtain r w1 where sr: "stop_and_remove e cid w = (r, w1)"
      by (cases "stop_and_remove e cid w")
    have w1: "db w1 = db w" "files w1 = files w" "free_port_calls w1 = free_port_calls w"
      using stop_and_remove_db[of e cid w] stop_and_remove_files[of e cid w]
        stop_and_remove_ports[of e cid w] sr by simp_all
    show ?thesis
    proof (cases "truthy_str (container_id d)")
      case False
      with row show ?thesis by (auto simp: remove_demo_instance_if_exist_def)
    next
      case True
      show ?thesis
        apply (rule exI[of _ w1])
        using row Some sr w1 True
        by (cases r) (simp_all add: remove_demo_instance_if_exist_def Let_def)
    qed
  qed
qed

subsection \<open>What the build and the launch do to the demo and the world\<close>

lemma launch_db: "db (snd (snd (launch e did img d w))) = db w"
  by (simp add: launch_def Let_def called_def split: sum.splits)

lemma launch_files: "files (snd (snd (launch e did img d w))) = files w"
  by (simp add: launch_def Let_def called_def split: sum.splits)

lemma launch_demo_id: "demo_id (fst (snd (launch e did img d w))) = demo_id d"
  by (simp add: launch_def Let_def split: sum.splits)

lemma launch_log_id: "log_id (fst (snd (launch e did img d w))) = log_id d"
  by (simp add: launch_def Let_def split: sum.splits)

lemma launch_running:
  "fst (launch e did img d w) = Inr u \<Longrightarrow>
   status (fst (snd (launch e did img d w))) = ''running''"
  by (auto simp: launch_def Let_def split: sum.splits if_splits)

lemma launch_port_kept:
  "truthy_int (port d) \<Longrightarrow>
   port (fst (snd (launch e did img d w))) = port d \<and>
   free_port_calls (snd (snd (launch e did img d w))) = free_port_calls w"
  by (simp add: launch_def Let_def called_def free_port_calls_def split: sum.splits)

lemma build_and_run_db: "db (snd (snd (build_and_run e did dir d w))) = db w"
  by (simp add: build_and_run_def Let_def called_def launch_db split: sum.splits)

lemma build_and_run_demo_id: "demo_id (fst (snd (build_and_run e did dir d w))) = demo_id d"
  by (simp add: build_and_run_def Let_def launch_demo_id split: sum.splits)

lemma build_and_run_log_id: "log_id (fst (snd (build_and_run e did dir d w))) = log_id d"
  by (simp add: build_and_run_def Let_def launch_log_id split: sum.splits)

lemma build_and_run_running:
  "fst (build_and_run e did dir d w) = Inr u \<Longrightarrow>
   status (fst (snd (build_and_run e did dir d w))) = ''running''"
  by (auto simp: build_and_run_def Let_def launch_running split: sum.splits)

lemma build_and_run_port_kept:
  "truthy_int (port d) \<Longrightarrow>
   port (fst (snd (build_and_run e did dir d w))) = port d \<and>
   free_port_calls (snd (snd (build_and_run e did dir d w))) = free_port_calls w"
  by (simp add: build_and_run_def Let_def free_port_calls_called free_port_calls_files
      launch_port_kept split: sum.splits)

subsection \<open>Frame facts for deploy\<close>

lemma load_or_new_id: "demo_id (load_or_new e did w) = did"
  by (auto simp: load_or_new_def new_demo_def split: option.splits dest: get_or_none_demo_id)

lemma port_of_cong: "db w' = db w \<Longrightarrow> port_of w' k = port_of w k"
  by (simp add: port_of_def get_or_none_def)

lemma port_of_save:
  "port_of (save d w) k = (if k = demo_id d then port d else port_of w k)"
  by (simp add: port_of_def get_or_none_def save_def)

lemma reclaim_port_of:
  "port_of (snd (remove_demo_instance_if_exist e did st w)) k = port_of w k"
proof -
  obtain w1 where w1: "db w1 = db w"
    and alt: "snd (remove_demo_instance_if_exist e did st w) = w1 \<or>
      (\<exists>d. get_or_none w did = Some d \<and> truthy_str (container_id d) \<and>
         (snd (remove_demo_instance_if_exist e did st w)
            = save (d\<lparr>status := st, container_id := None, image_id := None\<rparr>) w1 \<or>
          snd (remove_demo_instance_if_exist e did st w)
            = save (d\<lparr>status := ''error''\<rparr>) w1))"
    using reclaim_world[of w e did st] by blast
  have same: "port_of w1 k = port_of w k" using w1 by (rule port_of_cong)
  from alt show ?thesis
  proof (elim disjE exE conjE)
    assume "snd (remove_demo_instance_if_exist e did st w) = w1"
    with same show ?thesis by simp
  next
    fix d
    assume d: "get_or_none w did = Some d"
      and s: "snd (remove_demo_instance_if_exist e did st w)
            = save (d\<lparr>status := st, container_id := None, image_id := None\<rparr>) w1"
    from d have "demo_id d = did" by (rule get_or_none_demo_id)
    with d s same show ?thesis by (simp add: port_of_save) (simp add: port_of_def)
  next
    fix d
    assume d: "get_or_none w did = Some d"
      and s: "snd (remove_demo_instance_if_exist e did st w) = save (d\<lparr>status := ''error''\<rparr>) w1"
    from d have "demo_id d = did" by (rule get_or_none_demo_id)
    with d s same show ?thesis by (simp add: port_of_save) (simp add: port_of_def)
  qed
qed

lemma reclaim_free_port_calls:
  "free_port_calls (snd (remove_demo_instance_if_exist e did st w)) = free_port_calls w"
  using reclaim_world[of w e did st] by (auto simp: free_port_calls_save)

subsection \<open>Evaluating sample runs\<close>

lemmas run_defs =
  deploy_demo_def remove_demo_instance_if_exist_def stop_and_remove_def build_and_run_def
  launch_def load_or_new_def new_demo_def get_or_none_def save_def called_def
  truthy_str_def truthy_int_def is_NotFound_def is_APIError_def Let_def
  dockerfile_dir_def logfile_def

lemmas sample_defs =
  quiet_env_def good_env_def redeploy_env_def failed_build_env_def exited_env_def
  run_fails_env_def stop_fails_env_def error_record_env_def demo1_def world1_def empty_world_def

lemma strip_built: "strip ''Successfully built ab12cd34'' = ''Successfully built ab12cd34''"
  by (simp add: strip_def is_space_def)

lemma match_built: "re_match_built ''Successfully built ab12cd34''"
  by (simp add: re_match_built_def lower_char_def)

lemma parse_sample: "parse_image_id (pre @ [aux_record, built_record]) = Inr (JStr ''deadbeef00'')"
  by (simp add: parse_image_id_def final_res_of_def sha256_of_def aux_record_def built_record_def
      strip_built match_built nth_append)

lemma parse_sample2: "parse_image_id [aux_record, built_record] = Inr (JStr ''deadbeef00'')"
  using parse_sample[of "[]"] by simp

subsection \<open>When the extraction of the image identifier fails\<close>

text \<open>
  The spec's three cases are exactly the cases in which the body of the inner \<^verbatim>\<open>try\<close>
  raises.
\<close>

lemma aux_ident_subscript:
  "(case subscript_key r ''aux'' of
      Inl x \<Rightarrow> Inl x
    | Inr aux \<Rightarrow> (case subscript_key aux ''ID'' of Inl x \<Rightarrow> Inl x | Inr ident \<Rightarrow> slice_from_7 ident))
   = Inr v \<Longrightarrow> \<exists>i. aux_ident r = Some i \<and> is_sliceable i"
  apply (cases r; simp add: aux_ident_def split: option.splits)
  subgoal for kvs aux
    apply (cases aux; simp split: option.splits)
    subgoal for kvs2 i by (cases i; simp add: is_sliceable_def)
    done
  done

lemma subscript_aux_ident:
  "aux_ident r = Some i \<Longrightarrow> is_sliceable i \<Longrightarrow>
   \<exists>v. (case subscript_key r ''aux'' of
      Inl x \<Rightarrow> Inl x
    | Inr aux \<Rightarrow> (case subscript_key aux ''ID'' of Inl x \<Rightarrow> Inl x | Inr ident \<Rightarrow> slice_from_7 ident))
   = Inr v"
  apply (cases r; simp add: aux_ident_def split: option.splits)
  subgoal for kvs aux
    apply (cases aux; simp split: option.splits)
    by (cases i; simp add: is_sliceable_def)
  done

lemma extraction_fails_iff:
  "extraction_fails response final_res \<longleftrightarrow> (\<exists>x. sha256_of response final_res = Inl x)"
proof (cases "re_match_built final_res \<and> \<not> length response < 2")
  case False
  then show ?thesis by (auto simp: extraction_fails_def sha256_of_def)
next
  case True
  let ?r = "response ! (length response - 2)"
  let ?c = "case subscript_key ?r ''aux'' of
      Inl x \<Rightarrow> Inl x
    | Inr aux \<Rightarrow> (case subscript_key aux ''ID'' of Inl x \<Rightarrow> Inl x | Inr ident \<Rightarrow> slice_from_7 ident)"
  have s: "sha256_of response final_res = ?c" using True by (simp add: sha256_of_def)
  show ?thesis
  proof (cases ?c)
    case (Inl x)
    have "\<not> (\<exists>i. aux_ident ?r = Some i \<and> is_sliceable i)"
      using subscript_aux_ident[of ?r] Inl by auto
    then have "extraction_fails response final_res"
      by (auto simp: extraction_fails_def split: option.splits)
    with s Inl show ?thesis by simp
  next
    case (Inr v)
    then obtain i where "aux_ident ?r = Some i" "is_sliceable i"
      using aux_ident_subscript[of ?r v] by blast
    then have "\<not> extraction_fails response final_res"
      using True by (simp add: extraction_fails_def)
    with s Inr show ?thesis by simp
  qed
qed

lemma parse_image_id_fails:
  "final_res_of response = Inr final_res \<Longrightarrow> extraction_fails response final_res \<Longrightarrow>
   parse_image_id response = Inl TypeError"
  by (auto simp: parse_image_id_def extraction_fails_iff raise_BuildError_of_def)

lemma build_and_run_extraction_fails:
  assumes "api_build e (docker_unix_socket e) dir = Inr response"
    and "open_write e (logfile e d) = Inr ()"
    and "parse_image_id response = Inl x"
  shows "build_and_run e did dir d w =
           (Inl x, d, (called (OpenWrite (logfile e d)) (called (Build (docker_unix_socket e) dir) w))
                        \<lparr>files := (files w)(logfile e d \<mapsto> response)\<rparr>)"
  using assms by (simp add: build_and_run_def Let_def called_def)

subsection \<open>The statuses written\<close>

lemma statuses_ok_cong: "db w' = db w \<Longrightarrow> statuses_ok w \<Longrightarrow> statuses_ok w'"
  by (simp add: statuses_ok_def get_or_none_def)

lemma statuses_ok_save: "statuses_ok w \<Longrightarrow> status_ok (status d) \<Longrightarrow> statuses_ok (save d w)"
  by (auto simp: statuses_ok_def get_or_none_def save_def split: if_splits option.splits)

lemma status_ok_simps:
  "status_ok ''empty''" "status_ok ''deploying''" "status_ok ''redeploying''"
  "status_ok ''running''" "status_ok ''error''"
  by (simp_all add: status_ok_def)

lemma reclaim_statuses_ok:
  assumes "statuses_ok w" and "status_ok st"
  shows "statuses_ok (snd (remove_demo_instance_if_exist e did st w))"
proof -
  obtain w1 where w1: "db w1 = db w"
    and alt: "snd (remove_demo_instance_if_exist e did st w) = w1 \<or>
      (\<exists>d. get_or_none w did = Some d \<and> truthy_str (container_id d) \<and>
         (snd (remove_demo_instance_if_exist e did st w)
            = save (d\<lparr>status := st, container_id := None, image_id := None\<rparr>) w1 \<or>
          snd (remove_demo_instance_if_exist e did st w)
            = save (d\<lparr>status := ''error''\<rparr>) w1))"
    using reclaim_world[of w e did st] by blast
  have ok1: "statuses_ok w1" using w1 assms(1) by (rule statuses_ok_cong)
  from alt show ?thesis
    using ok1 assms(2) by (auto simp: statuses_ok_save status_ok_simps)
qed

lemma deploy_statuses_ok:
  assumes "statuses_ok w"
  shows "statuses_ok (snd (deploy_demo e did demo_dir w))"
proof -
  obtain r w1 where R: "remove_demo_instance_if_exist e did ''redeploying'' w = (r, w1)"
    by (cases "remove_demo_instance_if_exist e did ''redeploying'' w")
  have ok1: "statuses_ok w1"
    using reclaim_statuses_ok[OF assms, of "''redeploying''" e did] R
    by (simp add: status_ok_simps)
  show ?thesis
  proof (cases r)
    case (Inl x)
    with R ok1 show ?thesis by (simp add: deploy_demo_def)
  next
    case (Inr v)
    show ?thesis
    proof (cases "home e")
      case None
      with R Inr ok1 show ?thesis by (simp add: deploy_demo_def)
    next
      case (Some h)
      let ?d = "load_or_new e did w1"
      obtain b d1 w2 where B: "build_and_run e did (dockerfile_dir e h did) ?d w1 = (b, d1, w2)"
        by (cases "build_and_run e did (dockerfile_dir e h did) ?d w1")
      have "db w2 = db w1"
        using build_and_run_db[of e did "dockerfile_dir e h did" ?d w1] B by simp
      then have ok2: "statuses_ok w2" using ok1 by (rule statuses_ok_cong)
      show ?thesis
      proof (cases b)
        case (Inl x)
        with R Inr Some B ok2 show ?thesis
          by (simp add: deploy_demo_def statuses_ok_save status_ok_simps)
      next
        case (Inr u)
        then have "status d1 = ''running''"
          using build_and_run_running[of e did "dockerfile_dir e h did" ?d w1 u] B by simp
        with R \<open>r = Inr v\<close> Some B ok2 Inr show ?thesis
          by (simp add: deploy_demo_def statuses_ok_save status_ok_simps)
      qed
    qed
  qed
qed

lemma reconcile_statuses_ok:
  assumes "statuses_ok w"
    and "\<forall>cid s. container_id d = Some cid \<and> containers_get e 0 cid = Inr s \<longrightarrow> status_ok s"
  shows "statuses_ok (snd (snd (update_demo_status e d w)))"
proof (cases "container_id d")
  case None
  with assms(1) show ?thesis by (simp add: update_demo_status_def truthy_str_def)
next
  case (Some cid)
  have c: "statuses_ok (called (Get cid) w)"
    using assms(1) by (rule statuses_ok_cong[rotated]) (simp add: called_def)
  show ?thesis
  proof (cases "containers_get e 0 cid")
    case (Inl x)
    with Some assms(1) c show ?thesis
      by (simp add: update_demo_status_def Let_def statuses_ok_save status_ok_simps)
  next
    case (Inr s)
    with assms(2) Some have "status_ok s" by blast
    with Some Inr assms(1) c show ?thesis
      by (simp add: update_demo_status_def Let_def statuses_ok_save)
  qed
qed

lemma reconcile_verbatim:
  assumes "container_id d = Some cid" "cid \<noteq> []" "containers_get e 0 cid = Inr s"
  shows "map_option status (get_or_none (snd (snd (update_demo_status e d w))) (demo_id d)) = Some s"
  using assms
  by (simp add: update_demo_status_def truthy_str_def Let_def get_or_none_def save_def)

subsection \<open>Reclaim, called twice\<close>

lemma reclaim_nothing_to_do:
  assumes "\<forall>d cid. get_or_none w did = Some d \<and> container_id d = Some cid \<and> cid \<noteq> []
             \<longrightarrow> containers_get e 0 cid = Inl NotFound"
  shows "fst (remove_demo_instance_if_exist e did st w) = Inr None \<and>
         db (snd (remove_demo_instance_if_exist e did st w)) = db w"
proof (cases "get_or_none w did")
  case None
  then show ?thesis by (simp add: remove_demo_instance_if_exist_def)
next
  case row: (Some d)
  show ?thesis
  proof (cases "container_id d")
    case None
    with row show ?thesis by (simp add: remove_demo_instance_if_exist_def truthy_str_def)
  next
    case (Some cid)
    show ?thesis
    proof (cases "cid = []")
      case True
      with row Some show ?thesis by (simp add: remove_demo_instance_if_exist_def truthy_str_def)
    next
      case False
      with assms row Some have "containers_get e 0 cid = Inl NotFound" by blast
      then have "stop_and_remove e cid w = (Inl NotFound, called (Get cid) w)"
        by (simp add: stop_and_remove_def Let_def)
      with row Some False show ?thesis
        by (simp add: remove_demo_instance_if_exist_def truthy_str_def is_NotFound_def called_def)
    qed
  qed
qed

lemma reclaim_after_removal:
  assumes "fst (remove_demo_instance_if_exist e did st w) = Inr (Some d1)"
  shows "remove_demo_instance_if_exist e2 did st2 (snd (remove_demo_instance_if_exist e did st w))
           = (Inr None, snd (remove_demo_instance_if_exist e did st w))"
proof -
  obtain d where row: "get_or_none w did = Some d"
    using assms by (cases "get_or_none w did") (auto simp: remove_demo_instance_if_exist_def)
  then have did: "demo_id d = did" by (rule get_or_none_demo_id)
  obtain cid where cid: "container_id d = Some cid"
    using assms row
    by (cases "container_id d") (auto simp: remove_demo_instance_if_exist_def truthy_str_def)
  obtain r wa where S: "stop_and_remove e cid w = (r, wa)" by (cases "stop_and_remove e cid w")
  have t: "truthy_str (container_id d)"
    using assms row by (auto simp: remove_demo_instance_if_exist_def split: if_splits)
  let ?d1 = "d\<lparr>status := st, container_id := None, image_id := None\<rparr>"
  have w1: "snd (remove_demo_instance_if_exist e did st w) = save ?d1 wa"
    using assms row cid S t
    by (cases r) (auto simp: remove_demo_instance_if_exist_def Let_def split: if_splits)
  have "get_or_none (save ?d1 wa) did = Some ?d1"
    using get_or_none_save_same[of ?d1 wa] did by simp
  then show ?thesis unfolding w1
    by (simp add: remove_demo_instance_if_exist_def truthy_str_def)
qed

lemma reclaim_same_answers:
  "db (snd (remove_demo_instance_if_exist e did st (snd (remove_demo_instance_if_exist e did st w))))
     = db (snd (remove_demo_instance_if_exist e did st w))"
proof (cases "get_or_none w did")
  case None
  then show ?thesis by (simp add: remove_demo_instance_if_exist_def)
next
  case row: (Some d)
  then have did: "demo_id d = did" by (rule get_or_none_demo_id)
  show ?thesis
  proof (cases "truthy_str (container_id d)")
    case False
    with row show ?thesis by (simp add: remove_demo_instance_if_exist_def)
  next
    case True
    then obtain cid where cid: "container_id d = Some cid"
      by (cases "container_id d") (auto simp: truthy_str_def)
    obtain r wa where S: "stop_and_remove e cid w = (r, wa)" by (cases "stop_and_remove e cid w")
    have dba: "db wa = db w" using stop_and_remove_db[of e cid w] S by simp
    show ?thesis
    proof (cases r)
      case (Inr u)
      then have "fst (remove_demo_instance_if_exist e did st w)
                   = Inr (Some (d\<lparr>status := st, container_id := None, image_id := None\<rparr>))"
        using row True cid S by (simp add: remove_demo_instance_if_exist_def Let_def)
      then show ?thesis using reclaim_after_removal[of e did st w _ e st] by simp
    next
      case (Inl x)
      have again: "\<And>w'. fst (stop_and_remove e cid w') = Inl x"
        using stop_and_remove_result[of e cid _ w] S Inl by simp
      show ?thesis
      proof (cases "\<not> is_NotFound x \<and> is_APIError x")
        case False
        then have w1: "snd (remove_demo_instance_if_exist e did st w) = wa"
          using row True cid S Inl by (auto simp: remove_demo_instance_if_exist_def)
        have rowa: "get_or_none wa did = Some d" using row dba by (simp add: get_or_none_def)
        obtain r2 wb where S2: "stop_and_remove e cid wa = (r2, wb)"
          by (cases "stop_and_remove e cid wa")
        then have r2: "r2 = Inl x" using again[of wa] by simp
        have dbb: "db wb = db wa" using stop_and_remove_db[of e cid wa] S2 by simp
        have "snd (remove_demo_instance_if_exist e did st wa) = wb"
          using rowa True cid S2 r2 False by (auto simp: remove_demo_instance_if_exist_def)
        with w1 dbb show ?thesis by simp
      next
        case api: True
        let ?de = "d\<lparr>status := ''error''\<rparr>"
        have w1: "snd (remove_demo_instance_if_exist e did st w) = save ?de wa"
          using row True cid S Inl api by (auto simp: remove_demo_instance_if_exist_def)
        have rowa: "get_or_none (save ?de wa) did = Some ?de"
          using get_or_none_save_same[of ?de wa] did by simp
        obtain r2 wb where S2: "stop_and_remove e cid (save ?de wa) = (r2, wb)"
          by (cases "stop_and_remove e cid (save ?de wa)")
        then have r2: "r2 = Inl x" using again[of "save ?de wa"] by simp
        have dbb: "db wb = db (save ?de wa)"
          using stop_and_remove_db[of e cid "save ?de wa"] S2 by simp
        have "snd (remove_demo_instance_if_exist e did st (save ?de wa)) = save ?de wb"
          using rowa True cid S2 r2 api by (auto simp: remove_demo_instance_if_exist_def)
        moreover have "db (save ?de wb) = db (save ?de wa)"
          using dbb by (simp add: save_def)
        ultimately show ?thesis using w1 by simp
      qed
    qed
  qed
qed

subsection \<open>The port before and at the launch step\<close>

lemma build_and_run_before_launch:
  assumes "port d = None"
    and "(case api_build e (docker_unix_socket e) dir of
            Inl _ \<Rightarrow> None
          | Inr response \<Rightarrow>
              (case open_write e (logfile e d) of
                 Inl _ \<Rightarrow> None
               | Inr _ \<Rightarrow> (case parse_image_id response of Inl _ \<Rightarrow> None | Inr img \<Rightarrow> Some img)))
         = None"
  shows "port (fst (snd (build_and_run e did dir d w))) = None \<and>
         free_port_calls (snd (snd (build_and_run e did dir d w))) = free_port_calls w"
  using assms
  by (auto simp: build_and_run_def Let_def free_port_calls_called free_port_calls_files
      split: sum.splits)

lemma load_or_new_port: "port (load_or_new e did w) = port_of w did"
  by (simp add: load_or_new_def port_of_def new_demo_def split: option.splits)

lemma deploy_before_launch:
  assumes absent: "port_of w did = None" and nl: "image_for_launch e did w = None"
  shows "port_of (snd (deploy_demo e did demo_dir w)) did = None \<and>
         free_port_calls (snd (deploy_demo e did demo_dir w)) = free_port_calls w"
proof -
  obtain r w1 where R: "remove_demo_instance_if_exist e did ''redeploying'' w = (r, w1)"
    by (cases "remove_demo_instance_if_exist e did ''redeploying'' w")
  have p1: "port_of w1 did = None"
    using reclaim_port_of[of e did "''redeploying''" w did] R absent by simp
  have c1: "free_port_calls w1 = free_port_calls w"
    using reclaim_free_port_calls[of e did "''redeploying''" w] R by simp
  show ?thesis
  proof (cases r)
    case (Inl x)
    with R p1 c1 show ?thesis by (simp add: deploy_demo_def)
  next
    case (Inr v)
    show ?thesis
    proof (cases "home e")
      case None
      with R Inr p1 c1 show ?thesis by (simp add: deploy_demo_def)
    next
      case (Some h)
      let ?d = "load_or_new e did w1"
      obtain b d1 w2 where B: "build_and_run e did (dockerfile_dir e h did) ?d w1 = (b, d1, w2)"
        by (cases "build_and_run e did (dockerfile_dir e h did) ?d w1")
      have pd: "port ?d = None" using p1 by (simp add: load_or_new_port)
      have pre: "(case api_build e (docker_unix_socket e) (dockerfile_dir e h did) of
            Inl _ \<Rightarrow> None
          | Inr response \<Rightarrow>
              (case open_write e (logfile e ?d) of
                 Inl _ \<Rightarrow> None
               | Inr _ \<Rightarrow> (case parse_image_id response of Inl _ \<Rightarrow> None | Inr img \<Rightarrow> Some img)))
         = None"
        using nl R Inr Some by (simp add: image_for_launch_def)
      have id1: "demo_id d1 = did"
        using build_and_run_demo_id[of e did "dockerfile_dir e h did" ?d w1] B
        by (simp add: load_or_new_id)
      have k: "port d1 = None" "free_port_calls w2 = free_port_calls w"
        using build_and_run_before_launch[OF pd pre, of did w1] B c1 by simp_all
      have "db w2 = db w1"
        using build_and_run_db[of e did "dockerfile_dir e h did" ?d w1] B by simp
      then have w2: "port_of w2 did = None"
        using port_of_cong[of w2 w1 did] p1 by simp
      show ?thesis using R Inr Some B id1 k w2
        by (cases b) (simp_all add: deploy_demo_def port_of_save free_port_calls_save)
    qed
  qed
qed

lemma deploy_run_raises:
  assumes absent: "port_of w did = None" and il: "image_for_launch e did w = Some img"
    and fp: "get_a_free_port e = Inr p"
    and run: "containers_run e img did (origami_wrapped_demo_port e @ ''/tcp'') (Some p) = Inl x"
    and api: "is_APIError x"
  shows "fst (deploy_demo e did demo_dir w) = Inr () \<and>
         port_of (snd (deploy_demo e did demo_dir w)) did = Some p \<and>
         map_option status (get_or_none (snd (deploy_demo e did demo_dir w)) did) = Some ''error'' \<and>
         free_port_calls (snd (deploy_demo e did demo_dir w)) = Suc (free_port_calls w)"
proof -
  obtain r w1 where R: "remove_demo_instance_if_exist e did ''redeploying'' w = (r, w1)"
    by (cases "remove_demo_instance_if_exist e did ''redeploying'' w")
  have p1: "port_of w1 did = None"
    using reclaim_port_of[of e did "''redeploying''" w did] R absent by simp
  have c1: "free_port_calls w1 = free_port_calls w"
    using reclaim_free_port_calls[of e did "''redeploying''" w] R by simp
  from il R obtain v where r: "r = Inr v"
    by (cases r) (simp_all add: image_for_launch_def)
  from il R r obtain h where h: "home e = Some h"
    by (cases "home e") (simp_all add: image_for_launch_def)
  let ?d = "load_or_new e did w1"
  let ?dir = "dockerfile_dir e h did"
  from il R r h obtain response where b: "api_build e (docker_unix_socket e) ?dir = Inr response"
    by (cases "api_build e (docker_unix_socket e) ?dir") (simp_all add: image_for_launch_def)
  from il R r h b have o: "open_write e (logfile e ?d) = Inr ()"
    by (cases "open_write e (logfile e ?d)") (simp_all add: image_for_launch_def)
  from il R r h b o have pi: "parse_image_id response = Inr img"
    by (cases "parse_image_id response") (simp_all add: image_for_launch_def)
  have pd: "port ?d = None" using p1 by (simp add: load_or_new_port)
  let ?w3 = "(called (OpenWrite (logfile e ?d)) (called (Build (docker_unix_socket e) ?dir) w1))
               \<lparr>files := (files w1)(logfile e ?d \<mapsto> response)\<rparr>"
  let ?d2 = "?d\<lparr>image_id := Some img, port := Some p\<rparr>"
  let ?w5 = "called (Run img did (origami_wrapped_demo_port e @ ''/tcp'') (Some p))
               (called GetFreePort ?w3)"
  have L: "launch e did img (?d\<lparr>image_id := Some img\<rparr>) ?w3 = (Inl x, ?d2, ?w5)"
    using pd fp run by (simp add: launch_def Let_def truthy_int_def)
  have B: "build_and_run e did ?dir ?d w1 = (Inl x, ?d2, ?w5)"
    using b o pi L by (simp add: build_and_run_def Let_def called_def)
  have D: "deploy_demo e did demo_dir w = (Inr (), save (?d2\<lparr>status := ''error''\<rparr>) ?w5)"
    using R r h B api by (simp add: deploy_demo_def)
  have G: "get_or_none (save (?d2\<lparr>status := ''error''\<rparr>) ?w5) did = Some (?d2\<lparr>status := ''error''\<rparr>)"
    using get_or_none_save_same[of "?d2\<lparr>status := ''error''\<rparr>" ?w5] by (simp add: load_or_new_id)
  have C: "free_port_calls ?w5 = Suc (free_port_calls w)"
    using c1 by (simp add: free_port_calls_called free_port_calls_files)
  show ?thesis using D G C by (simp add: port_of_def free_port_calls_save)
qed

subsection \<open>Exceptions that leave deploy\<close>

text \<open>
  Deploy absorbs \<^verbatim>\<open>BuildError\<close> and \<^verbatim>\<open>APIError\<close> only. Line 164 reads the final message
  outside the inner \<^verbatim>\<open>try\<close>, so a log whose last record has no \<^verbatim>\<open>stream\<close> makes deploy raise
  \<^verbatim>\<open>KeyError\<close>: the final save is skipped, and the row keeps the status that the reclaim
  wrote. The log file has been written by then.
\<close>

text \<open>
  When the extraction fails in one of the spec's three ways, the handler's
  \<^verbatim>\<open>raise BuildError(e)\<close> raises \<^verbatim>\<open>TypeError\<close>, which deploy does not absorb either: deploy
  raises, the table is as the reclaim left it, and the log file holds the log.
\<close>

lemma deploy_extraction_failure_raises:
  assumes reclaimed: "fst (remove_demo_instance_if_exist e did ''redeploying'' w) = Inr r"
    and home: "home e = Some h"
    and build: "api_build e (docker_unix_socket e) (dockerfile_dir e h did) = Inr response"
    and opened: "\<forall>path. open_write e path = Inr ()"
    and final: "final_res_of response = Inr final_res"
    and fails: "extraction_fails response final_res"
  shows "fst (deploy_demo e did demo_dir w) = Inl TypeError \<and>
         db (snd (deploy_demo e did demo_dir w))
           = db (snd (remove_demo_instance_if_exist e did ''redeploying'' w)) \<and>
         files (snd (deploy_demo e did demo_dir w))
           (logfile e (load_or_new e did
              (snd (remove_demo_instance_if_exist e did ''redeploying'' w)))) = Some response"
proof -
  obtain w1 where R: "remove_demo_instance_if_exist e did ''redeploying'' w = (Inr r, w1)"
    using reclaimed by (cases "remove_demo_instance_if_exist e did ''redeploying'' w") simp
  let ?d = "load_or_new e did w1"
  let ?w3 = "(called (OpenWrite (logfile e ?d))
               (called (Build (docker_unix_socket e) (dockerfile_dir e h did)) w1))
                \<lparr>files := (files w1)(logfile e ?d \<mapsto> response)\<rparr>"
  have P: "parse_image_id response = Inl TypeError"
    using final fails by (rule parse_image_id_fails)
  have B: "build_and_run e did (dockerfile_dir e h did) ?d w1 = (Inl TypeError, ?d, ?w3)"
    using build opened P by (simp add: build_and_run_extraction_fails)
  have D: "deploy_demo e did demo_dir w = (Inl TypeError, ?w3)"
    using R home B by (simp add: deploy_demo_def is_APIError_def)
  show ?thesis using D R by (simp add: called_def)
qed

lemma deploy_last_record_without_stream:
  "fst (deploy_demo error_record_env ''demo1'' ''/tmp/demo1'' world1) = Inl KeyError \<and>
   map_option status
     (get_or_none (snd (deploy_demo error_record_env ''demo1'' ''/tmp/demo1'' world1)) ''demo1'')
     = Some ''redeploying'' \<and>
   files (snd (deploy_demo error_record_env ''demo1'' ''/tmp/demo1'' world1))
     ''/srv/static/logs/log1'' = Some [step_record, error_record]"
proof -
  have "parse_image_id [step_record, error_record] = Inl KeyError"
    by (simp add: parse_image_id_def final_res_of_def error_record_def)
  then show ?thesis by (simp add: run_defs sample_defs)
qed

subsection \<open>Reconcile\<close>

text \<open>
  Claim C3. For a demo whose \<open>container_id\<close> is set (true in Python's sense: not \<^verbatim>\<open>None\<close>, not
  empty), if the runtime answers the lookup of the container with \<^verbatim>\<open>NotFound\<close>, then
  \<open>update_demo_status\<close> returns, and the row stored for the demo is the demo with
  \<open>container_id\<close> absent and \<open>status\<close> \<^verbatim>\<open>empty\<close>.
\<close>

theorem C3_reconcile_not_found:
  assumes "container_id d = Some cid" and "cid \<noteq> []"
    and "containers_get e 0 cid = Inl NotFound"
  shows "fst (update_demo_status e d w) = Inr () \<and>
         get_or_none (snd (snd (update_demo_status e d w))) (demo_id d)
           = Some (d\<lparr>container_id := None, status := ''empty''\<rparr>)"
  using assms
  by (simp add: update_demo_status_def truthy_str_def is_NotFound_def Let_def
        get_or_none_def save_def)

theorem C3_reconcile_not_found_witness:
  "container_id demo1 = Some ''c1'' \<and> ''c1'' \<noteq> [] \<and>
   containers_get quiet_env 0 ''c1'' = Inl NotFound \<and>
   fst (update_demo_status quiet_env demo1 world1) = Inr () \<and>
   get_or_none (snd (snd (update_demo_status quiet_env demo1 world1))) ''demo1''
     = Some (demo1\<lparr>container_id := None, status := ''empty''\<rparr>)"
  using C3_reconcile_not_found [of demo1 "''c1''" quiet_env world1]
  by (simp add: demo1_def quiet_env_def)

text \<open>
  Claim C6. If the runtime raises a transport error (\<^verbatim>\<open>APIError\<close>) when \<open>update_demo_status\<close>
  looks the container up, the call raises \<^verbatim>\<open>OrigamiDockerConnectionError\<close>, the demo object
  is as it was, the table is as it was, and the lookup is the only request made: nothing
  is saved.
\<close>

theorem C6_reconcile_transport_error:
  assumes "container_id d = Some cid" and "cid \<noteq> []"
    and "containers_get e 0 cid = Inl APIError"
  shows "fst (update_demo_status e d w) = Inl OrigamiDockerConnectionError \<and>
         fst (snd (update_demo_status e d w)) = d \<and>
         db (snd (snd (update_demo_status e d w))) = db w \<and>
         calls (snd (snd (update_demo_status e d w))) = calls w @ [Get cid]"
  using assms
  by (simp add: update_demo_status_def truthy_str_def is_NotFound_def is_APIError_def
        Let_def called_def)

theorem C6_reconcile_transport_error_witness:
  "container_id demo1 = Some ''c1'' \<and> ''c1'' \<noteq> [] \<and>
   containers_get (quiet_env\<lparr>containers_get := (\<lambda>n cid. Inl APIError)\<rparr>) 0 ''c1''
     = Inl APIError \<and>
   fst (update_demo_status (quiet_env\<lparr>containers_get := (\<lambda>n cid. Inl APIError)\<rparr>)
          demo1 world1) = Inl OrigamiDockerConnectionError \<and>
   fst (snd (update_demo_status (quiet_env\<lparr>containers_get := (\<lambda>n cid. Inl APIError)\<rparr>)
          demo1 world1)) = demo1 \<and>
   db (snd (snd (update_demo_status (quiet_env\<lparr>containers_get := (\<lambda>n cid. Inl APIError)\<rparr>)
          demo1 world1))) = db world1 \<and>
   calls (snd (snd (update_demo_status (quiet_env\<lparr>containers_get := (\<lambda>n cid. Inl APIError)\<rparr>)
          demo1 world1))) = calls world1 @ [Get ''c1'']"
  using C6_reconcile_transport_error
    [of demo1 "''c1''" "quiet_env\<lparr>containers_get := (\<lambda>n cid. Inl APIError)\<rparr>" world1]
  by (simp add: demo1_def)

subsection \<open>Deploy: the unused argument\<close>

text \<open>
  Claim C10. The \<^verbatim>\<open>demo_dir\<close> argument of \<open>deploy_demo\<close> has no effect: for any two values
  of it, the two runs give the same result, make the same requests and leave the same
  table and files. The build path is \<open>dockerfile_dir\<close>, made of \<^verbatim>\<open>HOME\<close>, the two configured
  directory names and \<open>demo_id\<close>.
\<close>

theorem C10_demo_dir_unused:
  "deploy_demo e did demo_dir1 w = deploy_demo e did demo_dir2 w"
  by (simp add: deploy_demo_def)

subsection \<open>Deploy: the final status\<close>



subsection \<open>Deploy: the port\<close>

text \<open>
  Claim C5. For a stored demo whose port is assigned (true in Python's sense: not \<^verbatim>\<open>None\<close>,
  not 0), a deploy for the same \<open>demo_id\<close> leaves the stored port as it is and does not
  ask the port allocator, however the run ends.
\<close>

theorem C5_port_stable:
  assumes row: "get_or_none w did = Some d" and p: "port d = Some p" and nz: "p \<noteq> 0"
  shows "port_of (snd (deploy_demo e did demo_dir w)) did = Some p \<and>
         free_port_calls (snd (deploy_demo e did demo_dir w)) = free_port_calls w"
proof -
  obtain r w1 where R: "remove_demo_instance_if_exist e did ''redeploying'' w = (r, w1)"
    by (cases "remove_demo_instance_if_exist e did ''redeploying'' w")
  have p1: "port_of w1 did = Some p"
    using reclaim_port_of[of e did "''redeploying''" w did] R row p by (simp add: port_of_def)
  have c1: "free_port_calls w1 = free_port_calls w"
    using reclaim_free_port_calls[of e did "''redeploying''" w] R by simp
  show ?thesis
  proof (cases r)
    case (Inl x)
    with R p1 c1 show ?thesis by (simp add: deploy_demo_def)
  next
    case (Inr v)
    show ?thesis
    proof (cases "home e")
      case None
      with R Inr p1 c1 show ?thesis by (simp add: deploy_demo_def)
    next
      case (Some h)
      let ?d = "load_or_new e did w1"
      obtain b d1 w2 where B: "build_and_run e did (dockerfile_dir e h did) ?d w1 = (b, d1, w2)"
        by (cases "build_and_run e did (dockerfile_dir e h did) ?d w1")
      have pd: "port ?d = Some p"
        using p1 by (auto simp: port_of_def load_or_new_def split: option.splits)
      then have t: "truthy_int (port ?d)" using nz by (simp add: truthy_int_def)
      have id1: "demo_id d1 = did"
        using build_and_run_demo_id[of e did "dockerfile_dir e h did" ?d w1] B
        by (simp add: load_or_new_id)
      have k: "port d1 = Some p" "free_port_calls w2 = free_port_calls w"
        using build_and_run_port_kept[OF t, of e did "dockerfile_dir e h did" w1] B pd c1
        by simp_all
      have "db w2 = db w1"
        using build_and_run_db[of e did "dockerfile_dir e h did" ?d w1] B by simp
      then have w2: "port_of w2 did = Some p"
        using port_of_cong[of w2 w1 did] p1 by simp
      show ?thesis using R Inr Some B id1 k w2
        by (cases b) (simp_all add: deploy_demo_def port_of_save free_port_calls_save)
    qed
  qed
qed

theorem C5_port_stable_witness:
  "get_or_none world1 ''demo1'' = Some demo1 \<and> port demo1 = Some 20000 \<and> (20000::int) \<noteq> 0 \<and>
   port_of (snd (deploy_demo redeploy_env ''demo1'' ''/tmp/demo1'' world1)) ''demo1'' = Some 20000 \<and>
   free_port_calls (snd (deploy_demo redeploy_env ''demo1'' ''/tmp/demo1'' world1))
     = free_port_calls world1"
  using C5_port_stable [of world1 "''demo1''" demo1 20000 redeploy_env "''/tmp/demo1''"]
  by (simp add: get_or_none_def world1_def demo1_def)

subsection \<open>Deploy: the image identifier\<close>


subsection \<open>Deploy: a failed extraction\<close>

text \<open>
  Claim C7. The claim says that a failed extraction of the image identifier ends in a
  saved status \<^verbatim>\<open>error\<close> and a return. The code does not do that. Take the stored demo
  \<^verbatim>\<open>demo1\<close> (status \<^verbatim>\<open>running\<close>), a runtime that no longer has its container, and a build
  whose log is the one record \<^verbatim>\<open>{stream: "Step 1/4 : FROM python:3"}\<close>. The final message
  does not match the success pattern, so \<^verbatim>\<open>match_obj.group(1)\<close> raises and the handler runs
  \<^verbatim>\<open>raise BuildError(e)\<close>, which raises \<^verbatim>\<open>TypeError\<close>. Deploy raises \<^verbatim>\<open>TypeError\<close>, the final
  save is skipped, and the stored status is still \<^verbatim>\<open>running\<close>. The log file has been written.
\<close>

theorem C7_extraction_failure_escapes:
  "final_res_of [step_record] = Inr ''Step 1/4 : FROM python:3'' \<and>
   \<not> re_match_built ''Step 1/4 : FROM python:3'' \<and>
   fst (deploy_demo failed_build_env ''demo1'' ''/tmp/demo1'' world1) = Inl TypeError \<and>
   map_option status
     (get_or_none (snd (deploy_demo failed_build_env ''demo1'' ''/tmp/demo1'' world1)) ''demo1'')
     = Some ''running'' \<and>
   files (snd (deploy_demo failed_build_env ''demo1'' ''/tmp/demo1'' world1))
     ''/srv/static/logs/log1'' = Some [step_record]"
proof -
  have f: "final_res_of [step_record] = Inr ''Step 1/4 : FROM python:3''"
    by (simp add: final_res_of_def step_record_def strip_def is_space_def)
  have m: "\<not> re_match_built ''Step 1/4 : FROM python:3''"
    by (simp add: re_match_built_def lower_char_def)
  have p: "parse_image_id [step_record] = Inl TypeError"
    using f m by (simp add: parse_image_id_def sha256_of_def raise_BuildError_of_def)
  show ?thesis using f m by (simp add: run_defs sample_defs p)
qed

subsection \<open>The set of statuses\<close>

text \<open>
  Claim C8, as stated, fails: \<open>update_demo_status\<close> stores the status the runtime reports
  for the container, whatever it is. With a table whose statuses are all among the five
  and a container that the runtime reports as \<^verbatim>\<open>exited\<close>, the stored status becomes
  \<^verbatim>\<open>exited\<close>.
\<close>

theorem C8_status_set_counterexample:
  "statuses_ok world1 \<and>
   containers_get exited_env 0 ''c1'' = Inr ''exited'' \<and>
   map_option status
     (get_or_none (snd (snd (update_demo_status exited_env demo1 world1))) ''demo1'')
     = Some ''exited'' \<and>
   \<not> status_ok ''exited'' \<and>
   \<not> statuses_ok (snd (snd (update_demo_status exited_env demo1 world1)))"
proof -
  have ok: "statuses_ok world1"
    by (auto simp: statuses_ok_def get_or_none_def world1_def demo1_def status_ok_def
        split: if_splits)
  have st: "get_or_none (snd (snd (update_demo_status exited_env demo1 world1))) ''demo1''
              = Some (demo1\<lparr>status := ''exited''\<rparr>)"
    by (simp add: update_demo_status_def run_defs sample_defs)
  have bad: "\<not> status_ok ''exited''" by (simp add: status_ok_def)
  have "\<not> statuses_ok (snd (snd (update_demo_status exited_env demo1 world1)))"
  proof
    assume "statuses_ok (snd (snd (update_demo_status exited_env demo1 world1)))"
    with st have "status_ok (status (demo1\<lparr>status := ''exited''\<rparr>))"
      unfolding statuses_ok_def by blast
    with bad show False by simp
  qed
  with ok st bad show ?thesis by (simp add: exited_env_def quiet_env_def)
qed

text \<open>
  Claim C8, amended. Starting from a table whose statuses are all among the five:
  deploy keeps them so; reclaim keeps them so when its target status is one of the five;
  reconcile keeps them so when the status the runtime reports, if it reports one, is one
  of the five. When the runtime reports a status for the demo's container, that status is
  what reconcile stores, unchanged.
\<close>

theorem C8_status_set_amended:
  assumes "statuses_ok w"
  shows "statuses_ok (snd (deploy_demo e did demo_dir w)) \<and>
         (status_ok st \<longrightarrow> statuses_ok (snd (remove_demo_instance_if_exist e did st w))) \<and>
         ((\<forall>cid s. container_id d = Some cid \<and> containers_get e 0 cid = Inr s \<longrightarrow> status_ok s)
            \<longrightarrow> statuses_ok (snd (snd (update_demo_status e d w)))) \<and>
         (\<forall>cid s. container_id d = Some cid \<and> cid \<noteq> [] \<and> containers_get e 0 cid = Inr s
            \<longrightarrow> map_option status
                  (get_or_none (snd (snd (update_demo_status e d w))) (demo_id d)) = Some s)"
  using assms deploy_statuses_ok [of w e did demo_dir] reclaim_statuses_ok [of w st e did]
    reconcile_statuses_ok [of w d e] reconcile_verbatim [of d _ e _ w]
  by blast

theorem C8_status_set_amended_witness:
  "statuses_ok world1 \<and> status_ok ''empty'' \<and>
   containers_get redeploy_env 0 ''c1'' = Inr ''running'' \<and> status_ok ''running'' \<and>
   statuses_ok (snd (deploy_demo redeploy_env ''demo1'' ''/tmp/demo1'' world1)) \<and>
   statuses_ok (snd (remove_demo_instance_if_exist redeploy_env ''demo1'' ''empty'' world1)) \<and>
   statuses_ok (snd (snd (update_demo_status redeploy_env demo1 world1))) \<and>
   map_option status
     (get_or_none (snd (snd (update_demo_status redeploy_env demo1 world1))) ''demo1'')
     = Some ''running''"
proof -
  have ok: "statuses_ok world1"
    by (auto simp: statuses_ok_def get_or_none_def world1_def demo1_def status_ok_def
        split: if_splits)
  have g: "\<forall>cid s. container_id demo1 = Some cid \<and> containers_get redeploy_env 0 cid = Inr s
             \<longrightarrow> status_ok s"
    by (simp add: sample_defs status_ok_def)
  have c: "container_id demo1 = Some ''c1'' \<and> ''c1'' \<noteq> [] \<and>
           containers_get redeploy_env 0 ''c1'' = Inr ''running''"
    by (simp add: sample_defs)
  have i: "demo_id demo1 = ''demo1''" by (simp add: demo1_def)
  show ?thesis
    using C8_status_set_amended [OF ok, of redeploy_env "''demo1''" "''/tmp/demo1''" "''empty''" demo1]
      ok g c i
    by (auto simp: status_ok_simps)
qed

subsection \<open>Reclaim is idempotent\<close>

text \<open>
  Claim C2. Call reclaim twice in succession. No external change between the calls means
  that the outside answers the second call as it answered the first (the same \<open>env\<close>);
  then the table after the second call is the table after the first. The second call
  raises nothing once the container is gone: if the first call removed it, a second call
  finds no container id in the row, asks nothing, changes nothing and returns \<^verbatim>\<open>None\<close>,
  whatever the outside would answer; and if the runtime reports as not found whatever
  container the row still names, the second call returns \<^verbatim>\<open>None\<close> and leaves the table as
  it is.
\<close>

theorem C2_reclaim_idempotent:
  "db (snd (remove_demo_instance_if_exist e did st
              (snd (remove_demo_instance_if_exist e did st w))))
     = db (snd (remove_demo_instance_if_exist e did st w)) \<and>
   (fst (remove_demo_instance_if_exist e did st w) = Inr (Some d1) \<longrightarrow>
      remove_demo_instance_if_exist e2 did st2 (snd (remove_demo_instance_if_exist e did st w))
        = (Inr None, snd (remove_demo_instance_if_exist e did st w))) \<and>
   ((\<forall>d cid. get_or_none (snd (remove_demo_instance_if_exist e did st w)) did = Some d \<and>
              container_id d = Some cid \<and> cid \<noteq> []
              \<longrightarrow> containers_get e2 0 cid = Inl NotFound) \<longrightarrow>
      fst (remove_demo_instance_if_exist e2 did st2
             (snd (remove_demo_instance_if_exist e did st w))) = Inr None \<and>
      db (snd (remove_demo_instance_if_exist e2 did st2
                 (snd (remove_demo_instance_if_exist e did st w))))
        = db (snd (remove_demo_instance_if_exist e did st w)))"
  using reclaim_same_answers [of e did st w] reclaim_after_removal [of e did st w d1 e2 st2]
    reclaim_nothing_to_do [of "snd (remove_demo_instance_if_exist e did st w)" did e2 st2]
  by blast

theorem C2_reclaim_idempotent_witness:
  "fst (remove_demo_instance_if_exist redeploy_env ''demo1'' ''empty'' world1)
     = Inr (Some (demo1\<lparr>status := ''empty'', container_id := None, image_id := None\<rparr>)) \<and>
   remove_demo_instance_if_exist quiet_env ''demo1'' ''empty''
     (snd (remove_demo_instance_if_exist redeploy_env ''demo1'' ''empty'' world1))
     = (Inr None, snd (remove_demo_instance_if_exist redeploy_env ''demo1'' ''empty'' world1)) \<and>
   get_or_none (snd (remove_demo_instance_if_exist quiet_env ''demo1'' ''empty'' world1)) ''demo1''
     = Some demo1 \<and>
   container_id demo1 = Some ''c1'' \<and>
   containers_get quiet_env 0 ''c1'' = Inl NotFound \<and>
   fst (remove_demo_instance_if_exist quiet_env ''demo1'' ''empty''
          (snd (remove_demo_instance_if_exist quiet_env ''demo1'' ''empty'' world1))) = Inr None \<and>
   db (snd (remove_demo_instance_if_exist quiet_env ''demo1'' ''empty''
              (snd (remove_demo_instance_if_exist quiet_env ''demo1'' ''empty'' world1))))
     = db (snd (remove_demo_instance_if_exist quiet_env ''demo1'' ''empty'' world1)) \<and>
   fst (remove_demo_instance_if_exist stop_fails_env ''demo1'' ''empty'' world1)
     = Inl OrigamiDockerConnectionError \<and>
   db (snd (remove_demo_instance_if_exist stop_fails_env ''demo1'' ''empty''
              (snd (remove_demo_instance_if_exist stop_fails_env ''demo1'' ''empty'' world1))))
     = db (snd (remove_demo_instance_if_exist stop_fails_env ''demo1'' ''empty'' world1))"
proof -
  have a: "fst (remove_demo_instance_if_exist redeploy_env ''demo1'' ''empty'' world1)
     = Inr (Some (demo1\<lparr>status := ''empty'', container_id := None, image_id := None\<rparr>))"
    by (simp add: run_defs sample_defs)
  have b: "get_or_none (snd (remove_demo_instance_if_exist quiet_env ''demo1'' ''empty'' world1))
             ''demo1'' = Some demo1"
    by (simp add: run_defs sample_defs)
  have c: "\<forall>d cid. get_or_none (snd (remove_demo_instance_if_exist quiet_env ''demo1'' ''empty''
                       world1)) ''demo1'' = Some d \<and> container_id d = Some cid \<and> cid \<noteq> []
             \<longrightarrow> containers_get quiet_env 0 cid = Inl NotFound"
    by (simp add: quiet_env_def)
  have d: "fst (remove_demo_instance_if_exist stop_fails_env ''demo1'' ''empty'' world1)
     = Inl OrigamiDockerConnectionError"
    by (simp add: run_defs sample_defs)
  have e: "container_id demo1 = Some ''c1'' \<and> containers_get quiet_env 0 ''c1'' = Inl NotFound"
    by (simp add: sample_defs)
  show ?thesis
    using C2_reclaim_idempotent [of redeploy_env "''demo1''" "''empty''" world1
        "demo1\<lparr>status := ''empty'', container_id := None, image_id := None\<rparr>" quiet_env "''empty''"]
      C2_reclaim_idempotent [of quiet_env "''demo1''" "''empty''" world1 demo1 quiet_env "''empty''"]
      C2_reclaim_idempotent [of stop_fails_env "''demo1''" "''empty''" world1 demo1 quiet_env
        "''empty''"]
      a b c d e
    by simp
qed

subsection \<open>Deploy: when the port is first stored\<close>

text \<open>
  Claim C9, as stated, fails: the port is taken from the allocator before the container
  is run, and the save at the end of deploy stores it also when the run call raised. A
  new demo, a good build, a free port 20001 and a run call that raises \<^verbatim>\<open>APIError\<close>: deploy
  returns, and the stored row has status \<^verbatim>\<open>error\<close>, no container and port 20001.
\<close>

theorem C9_port_counterexample:
  "port_of empty_world ''demo1'' = None \<and>
   get_a_free_port run_fails_env = Inr 20001 \<and>
   containers_run run_fails_env (JStr ''deadbeef00'') ''demo1'' ''9001/tcp'' (Some 20001)
     = Inl APIError \<and>
   fst (deploy_demo run_fails_env ''demo1'' ''/tmp/demo1'' empty_world) = Inr () \<and>
   map_option status
     (get_or_none (snd (deploy_demo run_fails_env ''demo1'' ''/tmp/demo1'' empty_world)) ''demo1'')
     = Some ''error'' \<and>
   map_option container_id
     (get_or_none (snd (deploy_demo run_fails_env ''demo1'' ''/tmp/demo1'' empty_world)) ''demo1'')
     = Some None \<and>
   port_of (snd (deploy_demo run_fails_env ''demo1'' ''/tmp/demo1'' empty_world)) ''demo1''
     = Some 20001"
  by (simp add: port_of_def run_defs sample_defs parse_sample2)

text \<open>
  Claim C9, amended. Let the stored port of the demo be absent. A deploy that does not
  reach the launch step (the reclaim raises, \<^verbatim>\<open>HOME\<close> is unset, the build raises, the log
  file does not open, or no image identifier comes out of the log) does not ask the port
  allocator and leaves the stored port absent. A deploy that reaches the launch step takes
  a port from the allocator before it runs the container; if the run call then raises a
  transport error (\<^verbatim>\<open>APIError\<close>), deploy returns and the stored row has status \<^verbatim>\<open>error\<close>
  and the new port.
\<close>

theorem C9_port_amended:
  assumes "port_of w did = None"
  shows "(image_for_launch e did w = None \<longrightarrow>
            port_of (snd (deploy_demo e did demo_dir w)) did = None \<and>
            free_port_calls (snd (deploy_demo e did demo_dir w)) = free_port_calls w) \<and>
         (image_for_launch e did w = Some img \<and> get_a_free_port e = Inr p \<and>
          containers_run e img did (origami_wrapped_demo_port e @ ''/tcp'') (Some p) = Inl x \<and>
          is_APIError x \<longrightarrow>
            fst (deploy_demo e did demo_dir w) = Inr () \<and>
            port_of (snd (deploy_demo e did demo_dir w)) did = Some p \<and>
            map_option status (get_or_none (snd (deploy_demo e did demo_dir w)) did)
              = Some ''error'' \<and>
            free_port_calls (snd (deploy_demo e did demo_dir w)) = Suc (free_port_calls w))"
  using assms deploy_before_launch [of w did e demo_dir]
    deploy_run_raises [of w did e img p x demo_dir]
  by blast

theorem C9_port_amended_witness:
  "port_of empty_world ''demo1'' = None \<and>
   image_for_launch failed_build_env ''demo1'' empty_world = None \<and>
   port_of (snd (deploy_demo failed_build_env ''demo1'' ''/tmp/demo1'' empty_world)) ''demo1''
     = None \<and>
   free_port_calls (snd (deploy_demo failed_build_env ''demo1'' ''/tmp/demo1'' empty_world))
     = free_port_calls empty_world \<and>
   image_for_launch run_fails_env ''demo1'' empty_world = Some (JStr ''deadbeef00'') \<and>
   get_a_free_port run_fails_env = Inr 20001 \<and>
   containers_run run_fails_env (JStr ''deadbeef00'') ''demo1''
     (origami_wrapped_demo_port run_fails_env @ ''/tcp'') (Some 20001) = Inl APIError \<and>
   is_APIError APIError \<and>
   fst (deploy_demo run_fails_env ''demo1'' ''/tmp/demo1'' empty_world) = Inr () \<and>
   port_of (snd (deploy_demo run_fails_env ''demo1'' ''/tmp/demo1'' empty_world)) ''demo1''
     = Some 20001 \<and>
   map_option status
     (get_or_none (snd (deploy_demo run_fails_env ''demo1'' ''/tmp/demo1'' empty_world)) ''demo1'')
     = Some ''error'' \<and>
   free_port_calls (snd (deploy_demo run_fails_env ''demo1'' ''/tmp/demo1'' empty_world))
     = Suc (free_port_calls empty_world)"
proof -
  have a: "port_of empty_world ''demo1'' = None"
    by (simp add: port_of_def get_or_none_def empty_world_def)
  have f: "final_res_of [step_record] = Inr ''Step 1/4 : FROM python:3''"
    by (simp add: final_res_of_def step_record_def strip_def is_space_def)
  have p: "parse_image_id [step_record] = Inl TypeError"
    using f by (rule parse_image_id_fails) (simp add: extraction_fails_def)
  have n: "image_for_launch failed_build_env ''demo1'' empty_world = None"
    by (simp add: image_for_launch_def run_defs sample_defs p)
  have s: "image_for_launch run_fails_env ''demo1'' empty_world = Some (JStr ''deadbeef00'')"
    by (simp add: image_for_launch_def run_defs sample_defs parse_sample2)
  have r: "get_a_free_port run_fails_env = Inr 20001 \<and>
           containers_run run_fails_env (JStr ''deadbeef00'') ''demo1''
             (origami_wrapped_demo_port run_fails_env @ ''/tcp'') (Some 20001) = Inl APIError \<and>
           is_APIError APIError"
    by (simp add: sample_defs is_APIError_def)
  show ?thesis
    using C9_port_amended [OF a, of failed_build_env "''/tmp/demo1''"]
      C9_port_amended [OF a, of run_fails_env "''/tmp/demo1''" "JStr ''deadbeef00''" 20001 APIError]
      a n s r
    by simp
qed

end
